theory Spec2Isabelle
  imports Complex_Main "HOL-Library.Sublist" "HOL-Library.Char_ord" "HOL-Library.Multiset"
begin

section \<open>Plan My Outings: a shallow embedding of backend/main.py\<close>

text \<open>
  The backend is a Python module. Its floats are modelled as exact reals (no rounding,
  no NaN), its unbounded integers as \<open>int\<close>, its strings as byte strings, an
  \<open>Optional\<close> field as an \<open>option\<close>, a raised exception as the left summand of a sum
  type, and the relational store and the process-wide cache as values that are passed in
  and returned. Record fields keep the source's names; where two tables share a field
  name the later one carries a prefix.
\<close>

subsection \<open>Python idioms\<close>

text \<open>
  \<open>x or d\<close> yields \<open>d\<close> when \<open>x\<close> is falsy: \<open>None\<close>, a zero number or an empty
  string.
\<close>

definition or_real :: "real option \<Rightarrow> real \<Rightarrow> real" where
  "or_real x d = (case x of None \<Rightarrow> d | Some v \<Rightarrow> if v = 0 then d else v)"

definition or_int :: "int option \<Rightarrow> int \<Rightarrow> int" where
  "or_int x d = (case x of None \<Rightarrow> d | Some v \<Rightarrow> if v = 0 then d else v)"

definition or_str :: "string option \<Rightarrow> string \<Rightarrow> string" where
  "or_str x d = (case x of None \<Rightarrow> d | Some v \<Rightarrow> if v = [] then d else v)"

text \<open>\<open>d.get(k, default)\<close> on a dictionary given as an association list.\<close>

definition dict_get :: "('k \<times> 'v) list \<Rightarrow> 'k \<Rightarrow> 'v \<Rightarrow> 'v" where
  "dict_get d k dflt = (case map_of d k of None \<Rightarrow> dflt | Some v \<Rightarrow> v)"

text \<open>\<open>d[k] = v\<close>: an existing key keeps its place, a new key goes to the end.\<close>

fun dict_set :: "'k \<Rightarrow> 'v \<Rightarrow> ('k \<times> 'v) list \<Rightarrow> ('k \<times> 'v) list" where
  "dict_set k v [] = [(k, v)]"
| "dict_set k v ((k', v') # d) = (if k' = k then (k, v) # d else (k', v') # dict_set k v d)"

text \<open>\<open>str.lower\<close> on ASCII letters, and the substring test \<open>sub in s\<close>.\<close>

definition lower_char :: "char \<Rightarrow> char" where
  "lower_char c =
     (if CHR ''A'' \<le> c \<and> c \<le> CHR ''Z'' then char_of (of_char c + (32::nat)) else c)"

definition lower :: "string \<Rightarrow> string" where
  "lower s = map lower_char s"

fun contains :: "string \<Rightarrow> string \<Rightarrow> bool" where
  "contains sub [] = (sub = [])"
| "contains sub (c # cs) = (prefix sub (c # cs) \<or> contains sub cs)"

datatype py_error =
    HTTPException nat string
  | AttributeError
  | KeyError
  | ValueError

subsection \<open>Database rows\<close>

record member =
  member_group_id :: int
  member_name :: string
  location_lat :: "real option"
  location_lng :: "real option"

text \<open>
  A suggestion row. The columns \<open>id\<close>, \<open>source_id\<close>, \<open>description\<close>, \<open>metadata\<close> and
  \<open>created_at\<close> are copied through by the program and read by no decision; they are
  left out.
\<close>

record suggestion =
  group_id :: int
  stype :: string
  title :: string
  rating :: "real option"
  price_estimate :: "int option"

subsection \<open>Geo utility\<close>

text \<open>\<open>math.radians\<close> and \<open>math.atan2\<close>.\<close>

definition radians :: "real \<Rightarrow> real" where
  "radians x = x * pi / 180"

definition atan2 :: "real \<Rightarrow> real \<Rightarrow> real" where
  "atan2 y x =
     (if 0 < x then arctan (y / x)
      else if x < 0 \<and> 0 \<le> y then arctan (y / x) + pi
      else if x < 0 \<and> y < 0 then arctan (y / x) - pi
      else if 0 < y then pi / 2
      else if y < 0 then - (pi / 2)
      else 0)"

text \<open>
  \<open>calculate_distance\<close> (Haversine, Earth radius 6371 km). \<open>math.sqrt\<close> raises
  \<open>ValueError\<close> on a negative argument; both calls are guarded accordingly.
\<close>

definition haversine_a :: "real \<Rightarrow> real \<Rightarrow> real \<Rightarrow> real \<Rightarrow> real" where
  "haversine_a lat1 lng1 lat2 lng2 =
     (let dlat = radians (lat2 - lat1);
          dlng = radians (lng2 - lng1)
      in (sin (dlat / 2))\<^sup>2 + cos (radians lat1) * cos (radians lat2) * (sin (dlng / 2))\<^sup>2)"

definition calculate_distance :: "real \<Rightarrow> real \<Rightarrow> real \<Rightarrow> real \<Rightarrow> py_error + real" where
  "calculate_distance lat1 lng1 lat2 lng2 =
     (let R = 6371;
          a = haversine_a lat1 lng1 lat2 lng2
      in if a < 0 \<or> 1 - a < 0 then Inl ValueError
         else Inr (R * (2 * atan2 (sqrt a) (sqrt (1 - a)))))"

text \<open>
  The centroid of \<open>create_suggestions\<close>: the two comprehensions keep a coordinate when
  it is truthy, each axis on its own, and an empty axis falls back to the default.
\<close>

definition truthy_coords :: "real option list \<Rightarrow> real list" where
  "truthy_coords cs =
     List.map_filter (\<lambda>c. case c of None \<Rightarrow> None | Some v \<Rightarrow> if v = 0 then None else Some v) cs"

definition centroid :: "member list \<Rightarrow> real \<times> real" where
  "centroid members =
     (let lats = truthy_coords (map location_lat members);
          lngs = truthy_coords (map location_lng members);
          centroid_lat = (if lats \<noteq> [] then sum_list lats / real (length lats) else 12.9716);
          centroid_lng = (if lngs \<noteq> [] then sum_list lngs / real (length lngs) else 77.5946)
      in (centroid_lat, centroid_lng))"

subsection \<open>Scoring engine\<close>

definition budget_map :: "(string \<times> int) list" where
  "budget_map = [(''low'', 1000), (''medium'', 2000), (''high'', 4000)]"

definition budget_match :: "int \<Rightarrow> int \<Rightarrow> real" where
  "budget_match price budget_limit =
     (if price \<le> budget_limit then 1.0
      else if real_of_int price \<le> real_of_int budget_limit * 1.2 then 0.5
      else 0.1)"

definition calculate_score ::
  "suggestion \<Rightarrow> string \<Rightarrow> int \<Rightarrow> int \<Rightarrow> real \<Rightarrow> real \<Rightarrow> real" where
  "calculate_score s group_budget votes max_votes distance_km max_distance =
     (let rating_norm = or_real (rating s) 3.5 / 5.0;
          budget_limit = dict_get budget_map group_budget 2000;
          price = or_int (price_estimate s) 1000;
          vote_score = (if max_votes > 0 then real_of_int votes / real_of_int max_votes else 0.0);
          proximity_score =
            (if max_distance > 0 then max 0 (1 - distance_km / max_distance) else 0.5)
      in rating_norm * 0.5 + budget_match price budget_limit * 0.2 + vote_score * 0.2
           + proximity_score * 0.1)"

text \<open>
  The weighted sum as the specification words it: the limit table with default 2000, the
  price defaulting to 1000 when the suggestion carries no estimate, popularity 0 if
  maxVotes is 0, proximity 0.5 if maxDistance is 0. The rating term is written
  \<open>(rating or 3.5) / 5\<close> there, with the program's \<open>or\<close>.
\<close>

definition spec_limit :: "string \<Rightarrow> int" where
  "spec_limit budgetLevel =
     (if budgetLevel = ''low'' then 1000
      else if budgetLevel = ''medium'' then 2000
      else if budgetLevel = ''high'' then 4000
      else 2000)"

definition spec_price :: "suggestion \<Rightarrow> int" where
  "spec_price s = (case price_estimate s of None \<Rightarrow> 1000 | Some p \<Rightarrow> p)"

definition spec_budget_match :: "int \<Rightarrow> int \<Rightarrow> real" where
  "spec_budget_match price limit =
     (if price \<le> limit then 1
      else if real_of_int price \<le> 1.2 * real_of_int limit then 1 / 2
      else 1 / 10)"

definition spec_score ::
  "suggestion \<Rightarrow> string \<Rightarrow> int \<Rightarrow> int \<Rightarrow> real \<Rightarrow> real \<Rightarrow> real" where
  "spec_score s budgetLevel votes maxVotes distance maxDistance =
     0.5 * (or_real (rating s) 3.5 / 5)
     + 0.2 * spec_budget_match (spec_price s) (spec_limit budgetLevel)
     + 0.2 * (if maxVotes = 0 then 0 else real_of_int votes / real_of_int maxVotes)
     + 0.1 * (if maxDistance = 0 then 0.5 else max 0 (1 - distance / maxDistance))"

subsection \<open>Price tiers\<close>

definition price_mapping :: "(int \<times> int) list" where
  "price_mapping = [(0, 300), (1, 700), (2, 1500), (3, 3000), (4, 4500)]"

definition map_price_level_to_inr :: "int option \<Rightarrow> int" where
  "map_price_level_to_inr price_level = dict_get price_mapping (or_int price_level 1) 1000"

subsection \<open>External suggestion sources\<close>

text \<open>
  A raw candidate is a JSON object; the record holds the keys the program reads (the
  keys that only feed the metadata column are left out), each absent or present.
\<close>

record candidate =
  name :: "string option"
  c_rating :: "real option"
  price_level :: "int option"
  place_id :: "string option"
  c_title :: "string option"
  vote_average :: "real option"
  movie_id :: "int option"

definition mock_place :: "string \<Rightarrow> real \<Rightarrow> int \<Rightarrow> string \<Rightarrow> candidate" where
  "mock_place n r p i =
     \<lparr>name = Some n, c_rating = Some r, price_level = Some p, place_id = Some i,
      c_title = None, vote_average = None, movie_id = None\<rparr>"

definition mock_movie :: "string \<Rightarrow> real \<Rightarrow> int \<Rightarrow> candidate" where
  "mock_movie t v i =
     \<lparr>name = None, c_rating = None, price_level = None, place_id = None,
      c_title = Some t, vote_average = Some v, movie_id = Some i\<rparr>"

definition get_mock_places :: "string \<Rightarrow> string \<Rightarrow> candidate list" where
  "get_mock_places mood budget_level =
     [mock_place ''Cubbon Park'' 4.5 0 ''mock_1'',
      mock_place ''Wonderla'' 4.3 3 ''mock_2'',
      mock_place ''Cafe Coffee Day'' 4.0 1 ''mock_3'',
      mock_place ''Lalbagh Botanical Garden'' 4.6 0 ''mock_4'']"

definition get_mock_movies :: "string \<Rightarrow> candidate list" where
  "get_mock_movies mood =
     [mock_movie ''Zindagi Na Milegi Dobara'' 8.1 12345,
      mock_movie ''Dil Chahta Hai'' 8.0 12346,
      mock_movie ''Queen'' 7.8 12347,
      mock_movie ''3 Idiots'' 8.4 12348]"

text \<open>
  What the module takes from outside: the two credentials of the environment, the
  library functions \<open>hashlib.md5(...).hexdigest()\<close> and \<open>str\<close> on a float, the clock
  at the cache read and at the cache write, and the outcome of the one HTTP GET a fetch
  performs. \<open>Raised\<close> stands for any exception inside the \<open>try\<close> block (network
  failure, timeout, a body that is not a JSON object).
\<close>

datatype param = PStr string | PInt int

record json_body =
  status :: "string option"
  results :: "candidate list option"

datatype http_outcome = Raised | Body json_body

record world =
  GOOGLE_PLACES_KEY :: "string option"
  TMDB_API_KEY :: "string option"
  md5_hexdigest :: "string \<Rightarrow> string"
  float_str :: "real \<Rightarrow> string"
  now_read :: real
  now_write :: real
  http_get :: "string \<Rightarrow> (string \<times> param) list \<Rightarrow> http_outcome"

type_synonym cache = "string \<rightharpoonup> candidate list \<times> real"

definition CACHE_TTL :: real where
  "CACHE_TTL = 1800"

text \<open>
  \<open>get_cache_key\<close>: the arguments arrive already passed through \<open>str\<close>; they are
  joined with a bar behind the prefix and a colon, and the result is hashed.
\<close>

fun join_bar :: "string list \<Rightarrow> string" where
  "join_bar [] = []"
| "join_bar [a] = a"
| "join_bar (a # b # bs) = a @ ''|'' @ join_bar (b # bs)"

definition cache_content :: "string \<Rightarrow> string list \<Rightarrow> string" where
  "cache_content pfx args = pfx @ '':'' @ join_bar args"

definition get_cache_key :: "(string \<Rightarrow> string) \<Rightarrow> string \<Rightarrow> string list \<Rightarrow> string" where
  "get_cache_key md5 pfx args = md5 (cache_content pfx args)"

definition get_cached :: "real \<Rightarrow> cache \<Rightarrow> string \<Rightarrow> candidate list option \<times> cache" where
  "get_cached now c key =
     (case c key of
        None \<Rightarrow> (None, c)
      | Some (data, timestamp) \<Rightarrow>
          if now - timestamp < CACHE_TTL then (Some data, c) else (None, c(key := None)))"

definition set_cache :: "real \<Rightarrow> cache \<Rightarrow> string \<Rightarrow> candidate list \<Rightarrow> cache" where
  "set_cache now c key data = c(key \<mapsto> (data, now))"

text \<open>The key each fetch computes (lines 148 and 190 of the module).\<close>

definition places_cache_key :: "world \<Rightarrow> string \<Rightarrow> string \<Rightarrow> real \<Rightarrow> real \<Rightarrow> string" where
  "places_cache_key w mood budget_level lat lng =
     get_cache_key (md5_hexdigest w) ''places''
       [mood, budget_level, float_str w lat, float_str w lng]"

definition movies_cache_key :: "world \<Rightarrow> string \<Rightarrow> string" where
  "movies_cache_key w mood = get_cache_key (md5_hexdigest w) ''movies'' [mood]"

definition type_map :: "(string \<times> string) list" where
  "type_map =
     [(''adventurous'', ''tourist_attraction''), (''chill'', ''cafe''),
      (''romantic'', ''restaurant''), (''foodie'', ''restaurant''),
      (''fun_getaway'', ''amusement_park'')]"

definition genre_map :: "(string \<times> int) list" where
  "genre_map =
     [(''adventurous'', 12), (''chill'', 35), (''romantic'', 10749), (''foodie'', 99),
      (''fun_getaway'', 16)]"

text \<open>The GET each fetch sends, and what comes back.\<close>

definition places_response :: "world \<Rightarrow> string \<Rightarrow> real \<Rightarrow> real \<Rightarrow> string \<Rightarrow> http_outcome" where
  "places_response w place_type lat lng api_key =
     http_get w ''https://maps.googleapis.com/maps/api/place/nearbysearch/json''
       [(''location'', PStr (float_str w lat @ '','' @ float_str w lng)),
        (''radius'', PInt 5000),
        (''type'', PStr place_type),
        (''key'', PStr api_key)]"

definition movies_response :: "world \<Rightarrow> int \<Rightarrow> string \<Rightarrow> http_outcome" where
  "movies_response w genre_id api_key =
     http_get w ''https://api.themoviedb.org/3/discover/movie''
       [(''api_key'', PStr api_key),
        (''with_genres'', PInt genre_id),
        (''sort_by'', PStr ''popularity.desc''),
        (''language'', PStr ''en-IN'')]"

definition fetch_google_places ::
  "world \<Rightarrow> cache \<Rightarrow> string \<Rightarrow> string \<Rightarrow> real \<Rightarrow> real \<Rightarrow> candidate list \<times> cache" where
  "fetch_google_places w c mood budget_level lat lng =
     (case GOOGLE_PLACES_KEY w of
        None \<Rightarrow> (get_mock_places mood budget_level, c)
      | Some api_key \<Rightarrow>
          (if api_key = [] then (get_mock_places mood budget_level, c)
           else
             (let cache_key = places_cache_key w mood budget_level lat lng;
                  (cached, c1) = get_cached (now_read w) c cache_key
              in (case cached of
                    Some (x # xs) \<Rightarrow> (x # xs, c1)
                  | _ \<Rightarrow>
                     (let place_type = dict_get type_map mood ''point_of_interest''
                      in (case places_response w place_type lat lng api_key of
                            Raised \<Rightarrow> (get_mock_places mood budget_level, c1)
                          | Body data \<Rightarrow>
                              (if status data = Some ''OK'' then
                                 (case results data of
                                    None \<Rightarrow> (get_mock_places mood budget_level, c1)
                                  | Some rs \<Rightarrow>
                                      (take 10 rs,
                                       set_cache (now_write w) c1 cache_key (take 10 rs)))
                               else (get_mock_places mood budget_level, c1))))))))"

definition fetch_tmdb_movies :: "world \<Rightarrow> cache \<Rightarrow> string \<Rightarrow> candidate list \<times> cache" where
  "fetch_tmdb_movies w c mood =
     (case TMDB_API_KEY w of
        None \<Rightarrow> (get_mock_movies mood, c)
      | Some api_key \<Rightarrow>
          (if api_key = [] then (get_mock_movies mood, c)
           else
             (let cache_key = movies_cache_key w mood;
                  (cached, c1) = get_cached (now_read w) c cache_key
              in (case cached of
                    Some (x # xs) \<Rightarrow> (x # xs, c1)
                  | _ \<Rightarrow>
                     (let genre_id = dict_get genre_map mood 28
                      in (case movies_response w genre_id api_key of
                            Raised \<Rightarrow> (get_mock_movies mood, c1)
                          | Body data \<Rightarrow>
                              (case results data of
                                 None \<Rightarrow> (get_mock_movies mood, c1)
                               | Some rs \<Rightarrow>
                                   (take 10 rs,
                                    set_cache (now_write w) c1 cache_key (take 10 rs)))))))))"

text \<open>
  The key a suggestion request reaches, as \<open>create_suggestions\<close> dispatches on its
  \<open>source\<close> parameter with mood, budget level and centroid at hand.
\<close>

definition candidate_cache_key ::
  "world \<Rightarrow> string \<Rightarrow> string \<Rightarrow> string \<Rightarrow> real \<Rightarrow> real \<Rightarrow> string option" where
  "candidate_cache_key w source mood budget_level lat lng =
     (if source = ''google'' then Some (places_cache_key w mood budget_level lat lng)
      else if source = ''tmdb'' then Some (movies_cache_key w mood)
      else None)"

subsection \<open>Suggestion pipeline\<close>

record poll_option =
  opt_id :: string
  opt_title :: string

record vote_entry =
  member_id :: int
  emoji :: string

record poll =
  poll_id :: int
  poll_group_id :: int
  poll_title :: string
  options :: "poll_option list"
  votes :: "(string \<times> vote_entry list) list"

record group =
  gid :: int
  code :: string
  gname :: string
  mood :: "string option"
  budget_level :: "string option"

record db =
  groups :: "group list"
  members :: "member list"
  suggestions :: "suggestion list"
  polls :: "poll list"

definition place_suggestion :: "int \<Rightarrow> candidate \<Rightarrow> suggestion" where
  "place_suggestion g place =
     \<lparr>group_id = g,
      stype = ''place'',
      title = (case name place of None \<Rightarrow> ''Unknown Place'' | Some n \<Rightarrow> n),
      rating = Some (case c_rating place of None \<Rightarrow> 4.0 | Some r \<Rightarrow> r),
      price_estimate = Some (map_price_level_to_inr (price_level place))\<rparr>"

definition movie_suggestion :: "int \<Rightarrow> candidate \<Rightarrow> suggestion" where
  "movie_suggestion g movie =
     \<lparr>group_id = g,
      stype = ''movie'',
      title = (case c_title movie of None \<Rightarrow> ''Unknown Movie'' | Some t \<Rightarrow> t),
      rating = Some ((case vote_average movie of None \<Rightarrow> 7.0 | Some v \<Rightarrow> v) / 2),
      price_estimate = Some 600\<rparr>"

definition create_suggestions ::
  "world \<Rightarrow> db \<Rightarrow> cache \<Rightarrow> string \<Rightarrow> string \<Rightarrow> (py_error + suggestion list) \<times> db \<times> cache" where
  "create_suggestions w d c gcode source =
     (case find (\<lambda>g. code g = gcode) (groups d) of
        None \<Rightarrow> (Inl (HTTPException 404 ''Group not found''), d, c)
      | Some grp \<Rightarrow>
          let ms = filter (\<lambda>m. member_group_id m = gid grp) (members d);
              (centroid_lat, centroid_lng) = centroid ms
          in if source = ''google'' then
               let (places, c') =
                     fetch_google_places w c (or_str (mood grp) ''chill'')
                       (or_str (budget_level grp) ''medium'') centroid_lat centroid_lng;
                   new = map (place_suggestion (gid grp)) (take 4 places)
               in (Inr new, d\<lparr>suggestions := suggestions d @ new\<rparr>, c')
             else if source = ''tmdb'' then
               let (movies, c') = fetch_tmdb_movies w c (or_str (mood grp) ''chill'');
                   new = map (movie_suggestion (gid grp)) (take 4 movies)
               in (Inr new, d\<lparr>suggestions := suggestions d @ new\<rparr>, c')
             else (Inr [], d, c))"

subsection \<open>Poll and voting store\<close>

record vote_request =
  req_member_id :: int
  option_id :: string
  req_emoji :: string

type_synonym ledger = "(string \<times> vote_entry list) list"

text \<open>Writing a poll row puts it over the stored row with the same id.\<close>

fun save_poll :: "poll \<Rightarrow> poll list \<Rightarrow> poll list" where
  "save_poll p [] = []"
| "save_poll p (q # qs) = (if poll_id q = poll_id p then p # qs else q # save_poll p qs)"

text \<open>
  \<open>session.add(poll); session.commit(); session.refresh(poll)\<close> for the \<open>votes\<close>
  attribute. The column is a plain JSON column, so the session does not see changes made
  inside the dictionary: at commit it compares the assigned value with the value it
  loaded and writes the row only when the two differ, and the refresh reads the stored
  row back.
\<close>

definition commit_votes :: "db \<Rightarrow> poll \<Rightarrow> ledger \<Rightarrow> ledger \<Rightarrow> poll \<times> db" where
  "commit_votes d p loaded assigned =
     (if assigned = loaded then (p, d)
      else (let p' = p\<lparr>votes := assigned\<rparr>
            in (p', d\<lparr>polls := save_poll p' (polls d)\<rparr>)))"

text \<open>
  \<open>vote_poll\<close>. In \<open>votes = poll.votes or {}\<close> a non-empty ledger is the loaded
  dictionary itself, and the two in-place changes that follow (the new key, the appended
  entry) change the loaded value with it; an empty ledger is falsy and is replaced by a
  fresh dictionary, which leaves the loaded value empty. The assignment
  \<open>poll.votes = votes\<close> then hands the session the same object in the first case.
\<close>

definition vote_poll ::
  "db \<Rightarrow> string \<Rightarrow> int \<Rightarrow> vote_request \<Rightarrow> (py_error + poll) \<times> db" where
  "vote_poll d gcode pid req =
     (case find (\<lambda>p. poll_id p = pid) (polls d) of
        None \<Rightarrow> (Inl (HTTPException 404 ''Poll not found''), d)
      | Some p \<Rightarrow>
          (let shared = (votes p \<noteq> []);
               votes0 = votes p;
               oid = option_id req;
               votes1 = (if map_of votes0 oid = None then dict_set oid [] votes0 else votes0);
               vote_entry = \<lparr>member_id = req_member_id req, emoji = req_emoji req\<rparr>
           in (case map_of votes1 oid of
                 None \<Rightarrow> (Inl KeyError, d)
               | Some entries \<Rightarrow>
                   (let votes2 = dict_set oid (entries @ [vote_entry]) votes1;
                        loaded = (if shared then votes2 else votes p);
                        (p', d') = commit_votes d p loaded votes2
                    in (Inr p', d')))))"

subsection \<open>Assistant dispatcher\<close>

text \<open>
  Each reply of \<open>handle_planpal_query\<close> is a fixed text or a fixed template; a
  constructor stands for the text and carries what the template substitutes:
  \<open>NoSuggestionsYet\<close> for "No suggestions available yet. ...", \<open>TopPicks\<close> for the
  numbered list under "Top picks for you" (position, suggestion, score), \<open>SafetyTips\<close>,
  \<open>Comparison\<close> of two suggestions, \<open>NeedTwo\<close> for "Need at least 2 suggestions to
  compare!", \<open>ProsCons\<close> of one suggestion, and \<open>HelpText\<close> for "I can help with: ...".
\<close>

datatype reply =
    NoSuggestionsYet
  | TopPicks "(nat \<times> suggestion \<times> real) list"
  | SafetyTips
  | Comparison suggestion suggestion
  | NeedTwo
  | ProsCons suggestion
  | HelpText

text \<open>
  \<open>scored.sort(key=lambda x: x[1], reverse=True)\<close>: Python's sort is stable, also
  with \<open>reverse=True\<close>; a stable descending sort is the stable ascending insertion sort
  on the negated key.
\<close>

definition sort_by_score_desc :: "('a \<times> real) list \<Rightarrow> ('a \<times> real) list" where
  "sort_by_score_desc scored = sort_key (\<lambda>x. - snd x) scored"

definition handle_planpal_query :: "db \<Rightarrow> int \<Rightarrow> string \<Rightarrow> py_error + reply" where
  "handle_planpal_query d g text =
     (let text_lower = lower text;
          suggs = filter (\<lambda>s. group_id s = g) (suggestions d)
      in (case suggs of
            [] \<Rightarrow> Inr NoSuggestionsYet
          | s0 # rest \<Rightarrow>
             (let grp = find (\<lambda>x. gid x = g) (groups d)
              in if contains ''suggest'' text_lower then
                   (case grp of
                      None \<Rightarrow> Inl AttributeError
                    | Some gr \<Rightarrow>
                       (let scored =
                              map (\<lambda>s. (s, calculate_score s
                                               (or_str (budget_level gr) ''medium'') 0 1 0 10))
                                suggs;
                            top3 = take 3 (sort_by_score_desc scored)
                        in Inr (TopPicks (enumerate 1 top3))))
                 else if contains ''safety'' text_lower then Inr SafetyTips
                 else if contains ''compare'' text_lower then
                   (case rest of
                      [] \<Rightarrow> Inr NeedTwo
                    | s1 # _ \<Rightarrow> Inr (Comparison s0 s1))
                 else if contains ''proscons'' text_lower \<or> contains ''pros'' text_lower then
                   Inr (ProsCons s0)
                 else Inr HelpText)))"

subsection \<open>A concrete scenario\<close>

text \<open>
  One group on a low budget with four persisted suggestions (the first and the third
  score the same), an empty second group, one poll with one declared option and one vote,
  a vote for an option the poll does not declare and one for the declared option, an
  environment without credentials and
  one with a Google credential whose provider answers with one place.
\<close>

definition demo_group :: group where
  "demo_group =
     \<lparr>gid = 1, code = ''ABC123'', gname = ''Weekend'', mood = Some ''chill'',
      budget_level = Some ''low''\<rparr>"

definition demo_suggestion :: "string \<Rightarrow> real \<Rightarrow> int \<Rightarrow> suggestion" where
  "demo_suggestion t r p =
     \<lparr>group_id = 1, stype = ''place'', title = t, rating = Some r, price_estimate = Some p\<rparr>"

definition demo_poll :: poll where
  "demo_poll =
     \<lparr>poll_id = 5, poll_group_id = 1, poll_title = ''Where to go?'',
      options = [\<lparr>opt_id = ''opt1'', opt_title = ''Cafe''\<rparr>],
      votes = [(''opt1'', [\<lparr>member_id = 1, emoji = ''+1''\<rparr>])]\<rparr>"

definition demo_db :: db where
  "demo_db =
     \<lparr>groups = [demo_group,
                \<lparr>gid = 2, code = ''XYZ789'', gname = ''Empty'', mood = None, budget_level = None\<rparr>],
      members = [],
      suggestions =
        [demo_suggestion ''Cubbon Park'' 4.5 700,
         demo_suggestion ''Wonderla'' 4.3 3000,
         demo_suggestion ''Bangalore Palace'' 4.5 700,
         demo_suggestion ''Lalbagh Botanical Garden'' 4.6 700],
      polls = [demo_poll]\<rparr>"

definition demo_vote :: vote_request where
  "demo_vote = \<lparr>req_member_id = 2, option_id = ''ghost'', req_emoji = ''ok''\<rparr>"

definition demo_vote_opt1 :: vote_request where
  "demo_vote_opt1 = \<lparr>req_member_id = 2, option_id = ''opt1'', req_emoji = ''ok''\<rparr>"

definition demo_float_str :: "real \<Rightarrow> string" where
  "demo_float_str x = (if x = 1 then ''1.0'' else if x = 2 then ''2.0'' else ''0.0'')"

definition demo_world_off :: world where
  "demo_world_off =
     \<lparr>GOOGLE_PLACES_KEY = None, TMDB_API_KEY = Some [], md5_hexdigest = (\<lambda>s. s),
      float_str = demo_float_str, now_read = 10, now_write = 11,
      http_get = (\<lambda>url ps. Raised)\<rparr>"

definition demo_world_live :: world where
  "demo_world_live =
     \<lparr>GOOGLE_PLACES_KEY = Some ''k1'', TMDB_API_KEY = Some ''k2'', md5_hexdigest = (\<lambda>s. s),
      float_str = demo_float_str, now_read = 10, now_write = 11,
      http_get = (\<lambda>url ps. Body \<lparr>status = Some ''OK'',
                                    results = Some [mock_place ''Lalbagh'' 4.6 0 ''p1'']\<rparr>)\<rparr>"

section \<open>Properties\<close>

subsection \<open>Helper facts\<close>

lemma radians_diff_half: "radians (x - y) / 2 = - (radians (y - x) / 2)"
  by (simp add: radians_def field_simps)

lemma haversine_a_sym: "haversine_a lat1 lng1 lat2 lng2 = haversine_a lat2 lng2 lat1 lng1"
proof -
  have s1: "sin (radians (lat2 - lat1) / 2) = - sin (radians (lat1 - lat2) / 2)"
    using radians_diff_half [of lat2 lat1] by (simp only: sin_minus)
  have s2: "sin (radians (lng2 - lng1) / 2) = - sin (radians (lng1 - lng2) / 2)"
    using radians_diff_half [of lng2 lng1] by (simp only: sin_minus)
  show ?thesis
    unfolding haversine_a_def Let_def s1 s2 by (simp add: mult.commute)
qed

lemma haversine_a_same: "haversine_a lat1 lng1 lat1 lng1 = 0"
  by (simp add: haversine_a_def radians_def)

lemma dict_get_budget: "dict_get budget_map b 2000 = spec_limit b"
  by (simp add: dict_get_def budget_map_def spec_limit_def)

lemma spec_limit_ge: "1000 \<le> spec_limit b"
  by (simp add: spec_limit_def)

lemma budget_match_price:
  "budget_match (or_int (price_estimate s) 1000) (spec_limit b)
     = spec_budget_match (spec_price s) (spec_limit b)"
  using spec_limit_ge [of b]
  by (auto simp: budget_match_def spec_budget_match_def or_int_def spec_price_def
           split: option.splits)

lemma map_price_level_table:
  "map_price_level_to_inr None = 700"
  "map_price_level_to_inr (Some 1) = 700"
  "map_price_level_to_inr (Some 2) = 1500"
  "map_price_level_to_inr (Some 3) = 3000"
  "map_price_level_to_inr (Some 4) = 4500"
  by (simp_all add: map_price_level_to_inr_def dict_get_def price_mapping_def or_int_def)

lemma place_suggestion_rating_default:
  "c_rating place = None \<Longrightarrow> rating (place_suggestion g place) = Some 4"
  by (simp add: place_suggestion_def)

lemma centroid_no_members: "centroid [] = (12.9716, 77.5946)"
  by (simp add: centroid_def truthy_coords_def List.map_filter_def)

lemma map_of_dict_set: "map_of (dict_set k v d) = (map_of d)(k \<mapsto> v)"
  by (induction d) (auto simp: fun_eq_iff)

lemma vote_poll_any_code: "vote_poll d gcode pid req = vote_poll d gcode' pid req"
  by (simp add: vote_poll_def)

lemma vote_poll_not_found:
  "find (\<lambda>q. poll_id q = pid) (polls d) = None \<Longrightarrow>
     vote_poll d gcode pid req = (Inl (HTTPException 404 ''Poll not found''), d)"
  by (simp add: vote_poll_def)

text \<open>The first vote on a poll is written and returned.\<close>

lemma vote_poll_empty_ledger:
  assumes "find (\<lambda>q. poll_id q = pid) (polls d) = Some p" and "votes p = []"
  shows "vote_poll d gcode pid req =
           (Inr (p\<lparr>votes := [(option_id req,
                               [\<lparr>member_id = req_member_id req, emoji = req_emoji req\<rparr>])]\<rparr>),
            d\<lparr>polls := save_poll
                   (p\<lparr>votes := [(option_id req,
                               [\<lparr>member_id = req_member_id req, emoji = req_emoji req\<rparr>])]\<rparr>)
                   (polls d)\<rparr>)"
  using assms by (simp add: vote_poll_def commit_votes_def Let_def)

text \<open>
  A vote on a poll whose ledger already holds a key is answered with the poll as it was,
  and the store is as it was.
\<close>

lemma vote_poll_nonempty_ledger:
  assumes "find (\<lambda>q. poll_id q = pid) (polls d) = Some p" and "votes p \<noteq> []"
  shows "vote_poll d gcode pid req = (Inr p, d)"
proof (cases "map_of (votes p) (option_id req)")
  case None
  then show ?thesis using assms
    by (simp add: vote_poll_def commit_votes_def Let_def map_of_dict_set)
next
  case (Some es)
  then show ?thesis using assms
    by (simp add: vote_poll_def commit_votes_def Let_def)
qed

lemma get_cached_writes_nothing:
  "get_cached now c key = (r, c1) \<Longrightarrow> c1 k = Some e \<Longrightarrow> c k = Some e"
  by (auto simp: get_cached_def split: option.splits if_splits prod.splits)

lemma fetch_google_places_write:
  assumes "fetch_google_places w c m b lat lng = (r, c')"
      and "c' k = Some e" and "c k \<noteq> Some e"
  shows "\<exists>api_key body rs.
           GOOGLE_PLACES_KEY w = Some api_key \<and> api_key \<noteq> []
         \<and> places_response w (dict_get type_map m ''point_of_interest'') lat lng api_key
             = Body body
         \<and> status body = Some ''OK'' \<and> results body = Some rs
         \<and> r = take 10 rs
         \<and> k = places_cache_key w m b lat lng
         \<and> e = (take 10 rs, now_write w)"
proof -
  obtain cached c1 where
    g: "get_cached (now_read w) c (places_cache_key w m b lat lng) = (cached, c1)"
    by (cases "get_cached (now_read w) c (places_cache_key w m b lat lng)")
  have n: "c1 k \<noteq> Some e"
    using get_cached_writes_nothing [OF g] assms(3) by blast
  show ?thesis
    using assms(1,2,3) g n
    by (auto simp: fetch_google_places_def Let_def set_cache_def
             split: option.splits if_splits list.splits http_outcome.splits)
qed

lemma fetch_tmdb_movies_write:
  assumes "fetch_tmdb_movies w c m = (r, c')"
      and "c' k = Some e" and "c k \<noteq> Some e"
  shows "\<exists>api_key body rs.
           TMDB_API_KEY w = Some api_key \<and> api_key \<noteq> []
         \<and> movies_response w (dict_get genre_map m 28) api_key = Body body
         \<and> results body = Some rs
         \<and> r = take 10 rs
         \<and> k = movies_cache_key w m
         \<and> e = (take 10 rs, now_write w)"
proof -
  obtain cached c1 where
    g: "get_cached (now_read w) c (movies_cache_key w m) = (cached, c1)"
    by (cases "get_cached (now_read w) c (movies_cache_key w m)")
  have n: "c1 k \<noteq> Some e"
    using get_cached_writes_nothing [OF g] assms(3) by blast
  show ?thesis
    using assms(1,2,3) g n
    by (auto simp: fetch_tmdb_movies_def Let_def set_cache_def
             split: option.splits if_splits list.splits http_outcome.splits)
qed

lemma bar_split:
  "CHR ''|'' \<notin> set a \<Longrightarrow> CHR ''|'' \<notin> set a' \<Longrightarrow>
     a @ CHR ''|'' # r = a' @ CHR ''|'' # r' \<longleftrightarrow> a = a' \<and> r = r'"
proof (induction a arbitrary: a')
  case Nil
  then show ?case by (cases a') auto
next
  case (Cons x xs)
  then show ?case by (cases a') auto
qed

lemma places_content_inj:
  assumes "CHR ''|'' \<notin> set m" "CHR ''|'' \<notin> set b" "CHR ''|'' \<notin> set la"
      and "CHR ''|'' \<notin> set m'" "CHR ''|'' \<notin> set b'" "CHR ''|'' \<notin> set la'"
      and "cache_content ''places'' [m, b, la, lo] = cache_content ''places'' [m', b', la', lo']"
  shows "m = m' \<and> b = b' \<and> la = la' \<and> lo = lo'"
  using assms by (simp add: cache_content_def bar_split)

text \<open>
  Without the side condition the join is ambiguous: a bar inside the mood or the budget
  level shifts the field boundary.
\<close>

lemma bar_collision:
  "cache_content ''places'' [''a|b'', ''c'', ''1.0'', ''2.0'']
     = cache_content ''places'' [''a'', ''b|c'', ''1.0'', ''2.0'']"
  by (simp add: cache_content_def)

lemma demo_text_suggest: "contains ''suggest'' (lower ''@PlanPal SUGGEST something'')"
  by code_simp

lemma demo_find_group: "find (\<lambda>x. gid x = 1) (groups demo_db) = Some demo_group"
  by (simp add: demo_db_def demo_group_def)

lemma demo_find_poll: "find (\<lambda>q. poll_id q = 5) (polls demo_db) = Some demo_poll"
  by (simp add: demo_db_def demo_poll_def)

lemma demo_find_no_poll: "find (\<lambda>q. poll_id q = 99) (polls demo_db) = None"
  by (simp add: demo_db_def demo_poll_def)

text \<open>
  The reply to "suggest" in the scenario: Lalbagh first, then the two suggestions that
  tie at 0.75 in their stored order, Wonderla cut off.
\<close>

lemma demo_suggest_reply:
  "handle_planpal_query demo_db 1 ''@PlanPal SUGGEST something''
     = Inr (TopPicks [(1, demo_suggestion ''Lalbagh Botanical Garden'' 4.6 700, 76 / 100),
                      (2, demo_suggestion ''Cubbon Park'' 4.5 700, 75 / 100),
                      (3, demo_suggestion ''Bangalore Palace'' 4.5 700, 75 / 100)])"
proof -
  have s: "map (\<lambda>s. calculate_score s ''low'' 0 1 0 10)
             [demo_suggestion ''Cubbon Park'' 4.5 700,
              demo_suggestion ''Wonderla'' 4.3 3000,
              demo_suggestion ''Bangalore Palace'' 4.5 700,
              demo_suggestion ''Lalbagh Botanical Garden'' 4.6 700]
           = [75 / 100, 55 / 100, 75 / 100, 76 / 100]"
    by (simp add: calculate_score_def demo_suggestion_def dict_get_def budget_map_def
          or_real_def or_int_def budget_match_def)
  show ?thesis
    using demo_text_suggest s
    by (simp add: handle_planpal_query_def demo_db_def demo_group_def or_str_def
          sort_by_score_desc_def enumerate_eq_zip demo_suggestion_def)
qed

subsection \<open>Scoring\<close>

text \<open>
  C1, as the code has it. For non-negative \<open>max_votes\<close> and \<open>max_distance\<close> the
  scoring function equals the specification's weighted sum
  \<open>0.5 * (rating or 3.5) / 5 + 0.2 * budgetMatch + 0.2 * popularity + 0.1 * proximity\<close>
  with the limit table low 1000, medium 2000, high 4000 (default 2000) and the price
  defaulting to 1000. A suggestion rated 5 and priced within budget, with all of a
  positive number of votes, at distance 0 of a positive maximum, scores 1. A suggestion
  without rating, priced above 1.2 times the limit, with zero votes and at the positive
  maximum distance scores 0.5 * 0.7 + 0.2 * 0.1 = 0.37. All of it in exact arithmetic.
\<close>

theorem calculate_score_weighted_sum:
  "(0 \<le> max_votes \<and> 0 \<le> max_distance \<longrightarrow>
      calculate_score s b v max_votes d max_distance = spec_score s b v max_votes d max_distance)
   \<and> (rating s = Some 5 \<and> spec_price s \<le> spec_limit b \<and> v = max_votes \<and> 0 < max_votes
        \<and> d = 0 \<and> 0 < max_distance \<longrightarrow>
      calculate_score s b v max_votes d max_distance = 1)
   \<and> (rating s = None \<and> 1.2 * real_of_int (spec_limit b) < real_of_int (spec_price s)
        \<and> v = 0 \<and> d = max_distance \<and> 0 < max_distance \<longrightarrow>
      calculate_score s b v max_votes d max_distance = 37 / 100)"
proof (intro conjI impI)
  assume "0 \<le> max_votes \<and> 0 \<le> max_distance"
  then show "calculate_score s b v max_votes d max_distance
               = spec_score s b v max_votes d max_distance"
    by (simp add: calculate_score_def spec_score_def dict_get_budget budget_match_price Let_def)
next
  assume h: "rating s = Some 5 \<and> spec_price s \<le> spec_limit b \<and> v = max_votes
               \<and> 0 < max_votes \<and> d = 0 \<and> 0 < max_distance"
  then have "spec_budget_match (spec_price s) (spec_limit b) = 1"
    by (simp add: spec_budget_match_def)
  with h show "calculate_score s b v max_votes d max_distance = 1"
    by (simp add: calculate_score_def dict_get_budget budget_match_price Let_def or_real_def)
next
  assume h: "rating s = None \<and> 1.2 * real_of_int (spec_limit b) < real_of_int (spec_price s)
               \<and> v = 0 \<and> d = max_distance \<and> 0 < max_distance"
  then have "\<not> spec_price s \<le> spec_limit b"
    using spec_limit_ge [of b] by auto
  with h have "spec_budget_match (spec_price s) (spec_limit b) = 1 / 10"
    by (simp add: spec_budget_match_def)
  with h show "calculate_score s b v max_votes d max_distance = 37 / 100"
    by (simp add: calculate_score_def dict_get_budget budget_match_price Let_def or_real_def)
qed

theorem calculate_score_weighted_sum_witness:
  "(0::int) \<le> 2 \<and> (0::real) \<le> 10
   \<and> calculate_score (demo_suggestion ''Cubbon Park'' 5 700) ''low'' 2 2 0 10
       = spec_score (demo_suggestion ''Cubbon Park'' 5 700) ''low'' 2 2 0 10
   \<and> rating (demo_suggestion ''Cubbon Park'' 5 700) = Some 5
   \<and> spec_price (demo_suggestion ''Cubbon Park'' 5 700) \<le> spec_limit ''low''
   \<and> calculate_score (demo_suggestion ''Cubbon Park'' 5 700) ''low'' 2 2 0 10 = 1
   \<and> rating ((demo_suggestion ''Wonderla'' 0 3000)\<lparr>rating := None\<rparr>) = None
   \<and> 1.2 * real_of_int (spec_limit ''low'')
       < real_of_int (spec_price ((demo_suggestion ''Wonderla'' 0 3000)\<lparr>rating := None\<rparr>))
   \<and> calculate_score ((demo_suggestion ''Wonderla'' 0 3000)\<lparr>rating := None\<rparr>) ''low'' 0 1 10 10
       = 37 / 100"
proof -
  have a: "rating (demo_suggestion ''Cubbon Park'' 5 700) = Some 5
           \<and> spec_price (demo_suggestion ''Cubbon Park'' 5 700) \<le> spec_limit ''low''"
    by (simp add: demo_suggestion_def spec_price_def spec_limit_def)
  have b: "rating ((demo_suggestion ''Wonderla'' 0 3000)\<lparr>rating := None\<rparr>) = None
           \<and> 1.2 * real_of_int (spec_limit ''low'')
              < real_of_int (spec_price ((demo_suggestion ''Wonderla'' 0 3000)\<lparr>rating := None\<rparr>))"
    by (simp add: demo_suggestion_def spec_price_def spec_limit_def)
  show ?thesis
    using a b
      calculate_score_weighted_sum
        [of 2 10 "demo_suggestion ''Cubbon Park'' 5 700" "''low''" 2 0]
      calculate_score_weighted_sum
        [of 1 10 "(demo_suggestion ''Wonderla'' 0 3000)\<lparr>rating := None\<rparr>" "''low''" 0 10]
    by simp
qed

text \<open>
  The specification's second example expects 0.36; the function returns 0.37 there (the
  budget term weighs 0.2, not 0.1).
\<close>

theorem calculate_score_036_counterexample:
  "calculate_score
     \<lparr>group_id = 1, stype = ''place'', title = ''Wonderla'', rating = None,
      price_estimate = Some 3000\<rparr> ''low'' 0 1 10 10 = 37 / 100
   \<and> calculate_score
     \<lparr>group_id = 1, stype = ''place'', title = ''Wonderla'', rating = None,
      price_estimate = Some 3000\<rparr> ''low'' 0 1 10 10 \<noteq> 36 / 100"
  by (simp add: calculate_score_def dict_get_def budget_map_def or_real_def or_int_def
        budget_match_def)

subsection \<open>Place normalisation\<close>

text \<open>
  C2 at price tier 0: \<open>price_level or 1\<close> turns tier 0 into tier 1, so the first
  fallback place (Cubbon Park, tier 0) is priced 700 although the table maps 0 to 300.
\<close>

theorem price_tier_zero_priced_700:
  "map_price_level_to_inr (Some 0) = 700
   \<and> dict_get price_mapping 0 1000 = 300
   \<and> price_estimate (place_suggestion 1 (mock_place ''Cubbon Park'' 4.5 0 ''mock_1''))
       = Some 700"
  by (simp add: map_price_level_to_inr_def dict_get_def price_mapping_def or_int_def
        place_suggestion_def mock_place_def)

subsection \<open>Cache keys\<close>

text \<open>
  C3, as the code has it. The key of a place fetch is the digest of
  \<open>places:mood|budget_level|lat|lng\<close>, the key of a movie fetch the digest of
  \<open>movies:mood\<close>. Two place fetches whose mood, budget level and rendered coordinates
  differ somewhere hash different contents, provided mood, budget level and rendered
  latitude hold no bar; two movie fetches hash different contents when their moods
  differ; the key of a movie fetch does not depend on budget level, latitude or
  longitude.
\<close>

theorem cache_key_parameters:
  "places_cache_key w m b lat lng
     = md5_hexdigest w (cache_content ''places'' [m, b, float_str w lat, float_str w lng])
   \<and> movies_cache_key w m = md5_hexdigest w (cache_content ''movies'' [m])
   \<and> (CHR ''|'' \<notin> set m \<and> CHR ''|'' \<notin> set b \<and> CHR ''|'' \<notin> set (float_str w lat)
        \<and> CHR ''|'' \<notin> set m' \<and> CHR ''|'' \<notin> set b' \<and> CHR ''|'' \<notin> set (float_str w lat')
        \<and> (m, b, float_str w lat, float_str w lng) \<noteq> (m', b', float_str w lat', float_str w lng')
      \<longrightarrow> cache_content ''places'' [m, b, float_str w lat, float_str w lng]
            \<noteq> cache_content ''places'' [m', b', float_str w lat', float_str w lng'])
   \<and> (m \<noteq> m' \<longrightarrow> cache_content ''movies'' [m] \<noteq> cache_content ''movies'' [m'])
   \<and> candidate_cache_key w ''tmdb'' m b lat lng = candidate_cache_key w ''tmdb'' m b' lat' lng'"
proof (intro conjI impI)
  show "places_cache_key w m b lat lng
          = md5_hexdigest w (cache_content ''places'' [m, b, float_str w lat, float_str w lng])"
    by (simp add: places_cache_key_def get_cache_key_def)
  show "movies_cache_key w m = md5_hexdigest w (cache_content ''movies'' [m])"
    by (simp add: movies_cache_key_def get_cache_key_def)
  show "candidate_cache_key w ''tmdb'' m b lat lng = candidate_cache_key w ''tmdb'' m b' lat' lng'"
    by (simp add: candidate_cache_key_def)
next
  assume "m \<noteq> m'"
  then show "cache_content ''movies'' [m] \<noteq> cache_content ''movies'' [m']"
    by (simp add: cache_content_def)
next
  assume h: "CHR ''|'' \<notin> set m \<and> CHR ''|'' \<notin> set b \<and> CHR ''|'' \<notin> set (float_str w lat)
        \<and> CHR ''|'' \<notin> set m' \<and> CHR ''|'' \<notin> set b' \<and> CHR ''|'' \<notin> set (float_str w lat')
        \<and> (m, b, float_str w lat, float_str w lng) \<noteq> (m', b', float_str w lat', float_str w lng')"
  show "cache_content ''places'' [m, b, float_str w lat, float_str w lng]
            \<noteq> cache_content ''places'' [m', b', float_str w lat', float_str w lng']"
  proof
    assume "cache_content ''places'' [m, b, float_str w lat, float_str w lng]
              = cache_content ''places'' [m', b', float_str w lat', float_str w lng']"
    with h have "m = m' \<and> b = b' \<and> float_str w lat = float_str w lat'
                   \<and> float_str w lng = float_str w lng'"
      by (intro places_content_inj) simp_all
    with h show False by simp
  qed
qed

theorem cache_key_parameters_witness:
  "CHR ''|'' \<notin> set ''chill'' \<and> CHR ''|'' \<notin> set ''low''
   \<and> CHR ''|'' \<notin> set (float_str demo_world_live 1)
   \<and> CHR ''|'' \<notin> set ''foodie'' \<and> CHR ''|'' \<notin> set ''high''
   \<and> CHR ''|'' \<notin> set (float_str demo_world_live 2)
   \<and> (''chill'', ''low'', float_str demo_world_live 1, float_str demo_world_live 2)
       \<noteq> (''foodie'', ''high'', float_str demo_world_live 2, float_str demo_world_live 1)
   \<and> cache_content ''places'' [''chill'', ''low'', float_str demo_world_live 1,
         float_str demo_world_live 2]
       \<noteq> cache_content ''places'' [''foodie'', ''high'', float_str demo_world_live 2,
            float_str demo_world_live 1]
   \<and> ''chill'' \<noteq> ''foodie''
   \<and> cache_content ''movies'' [''chill''] \<noteq> cache_content ''movies'' [''foodie'']
   \<and> candidate_cache_key demo_world_live ''tmdb'' ''chill'' ''low'' 1 2
       = candidate_cache_key demo_world_live ''tmdb'' ''chill'' ''high'' 2 1"
proof -
  have h: "CHR ''|'' \<notin> set ''chill'' \<and> CHR ''|'' \<notin> set ''low''
   \<and> CHR ''|'' \<notin> set (float_str demo_world_live 1)
   \<and> CHR ''|'' \<notin> set ''foodie'' \<and> CHR ''|'' \<notin> set ''high''
   \<and> CHR ''|'' \<notin> set (float_str demo_world_live 2)
   \<and> (''chill'', ''low'', float_str demo_world_live 1, float_str demo_world_live 2)
       \<noteq> (''foodie'', ''high'', float_str demo_world_live 2, float_str demo_world_live 1)"
    by (simp add: demo_world_live_def demo_float_str_def)
  have n: "''chill'' \<noteq> ''foodie''" by simp
  show ?thesis
    using h n
      cache_key_parameters
        [of demo_world_live "''chill''" "''low''" 1 2 "''foodie''" "''high''" 2 1]
    by blast
qed

text \<open>
  Two movie requests with the same mood and different budget level and coordinates reach
  the same key, whatever the digest function.
\<close>

theorem movie_key_counterexample:
  "\<not> (\<forall>w. candidate_cache_key w ''tmdb'' ''chill'' ''low'' 1 2
           \<noteq> candidate_cache_key w ''tmdb'' ''chill'' ''high'' 3 4)"
  by (simp add: candidate_cache_key_def)

subsection \<open>Centroid\<close>

text \<open>
  C4 at a member on the equator: of two members at (0, 77) and (10, 79) the centroid's
  latitude is 10, the mean of the one latitude that is truthy, not 5; and a single member
  at (0, 0) yields the default location although that member has coordinates.
\<close>

theorem centroid_drops_zero_coordinate:
  "centroid
     [\<lparr>member_group_id = 1, member_name = ''A'', location_lat = Some 0, location_lng = Some 77\<rparr>,
      \<lparr>member_group_id = 1, member_name = ''B'', location_lat = Some 10, location_lng = Some 79\<rparr>]
     = (10, 78)
   \<and> centroid
     [\<lparr>member_group_id = 1, member_name = ''A'', location_lat = Some 0, location_lng = Some 0\<rparr>]
     = (12.9716, 77.5946)"
  by (simp add: centroid_def truthy_coords_def List.map_filter_def)

subsection \<open>Assistant dispatcher\<close>

text \<open>
  C5. When the lowercased text contains "suggest" and the group has at least three
  persisted suggestions, the reply is the top-picks list of exactly three entries, the
  first three of a ranking of all scored suggestions that is in descending score order and
  keeps suggestions of equal score in their stored order.
\<close>

theorem suggest_top3:
  assumes "contains ''suggest'' (lower text)"
      and "find (\<lambda>x. gid x = g) (groups d) = Some gr"
      and "3 \<le> length (filter (\<lambda>s. group_id s = g) (suggestions d))"
  shows "\<exists>ranked.
           handle_planpal_query d g text = Inr (TopPicks (enumerate 1 (take 3 ranked)))
         \<and> length (enumerate 1 (take 3 ranked)) = 3
         \<and> mset ranked =
             mset (map (\<lambda>s. (s, calculate_score s (or_str (budget_level gr) ''medium'') 0 1 0 10))
                     (filter (\<lambda>s. group_id s = g) (suggestions d)))
         \<and> sorted_wrt (\<lambda>a b. snd a \<ge> snd b) ranked
         \<and> (\<forall>k. filter (\<lambda>e. snd e = k) ranked
                = filter (\<lambda>e. snd e = k)
                    (map (\<lambda>s. (s, calculate_score s (or_str (budget_level gr) ''medium'') 0 1 0 10))
                       (filter (\<lambda>s. group_id s = g) (suggestions d))))"
proof -
  define suggs where "suggs = filter (\<lambda>s. group_id s = g) (suggestions d)"
  define scored where
    "scored = map (\<lambda>s. (s, calculate_score s (or_str (budget_level gr) ''medium'') 0 1 0 10)) suggs"
  define ranked where "ranked = sort_by_score_desc scored"
  have len: "3 \<le> length suggs" using assms(3) by (simp add: suggs_def)
  then obtain s0 rest where sr: "suggs = s0 # rest" by (cases suggs) auto
  have h: "handle_planpal_query d g text = Inr (TopPicks (enumerate 1 (take 3 ranked)))"
    using assms(1,2) sr
    by (simp add: handle_planpal_query_def Let_def suggs_def [symmetric] ranked_def scored_def)
  have l: "length (enumerate 1 (take 3 ranked)) = 3"
    using len by (simp add: ranked_def scored_def sort_by_score_desc_def)
  have m: "mset ranked = mset scored"
    by (simp add: ranked_def sort_by_score_desc_def)
  have "sorted (map (\<lambda>x. - snd x) ranked)"
    by (simp add: ranked_def sort_by_score_desc_def)
  then have s: "sorted_wrt (\<lambda>a b. snd a \<ge> snd b) ranked"
    by (simp add: sorted_map)
  have st: "filter (\<lambda>e. snd e = k) ranked = filter (\<lambda>e. snd e = k) scored" for k
    using sort_key_stable [of "\<lambda>x. - snd x" "- k" scored]
    by (simp add: ranked_def sort_by_score_desc_def)
  show ?thesis
    using h l m s st unfolding scored_def suggs_def by blast
qed

theorem suggest_top3_witness:
  "contains ''suggest'' (lower ''@PlanPal SUGGEST something'')
   \<and> find (\<lambda>x. gid x = 1) (groups demo_db) = Some demo_group
   \<and> 3 \<le> length (filter (\<lambda>s. group_id s = 1) (suggestions demo_db))
   \<and> (\<exists>ranked.
        handle_planpal_query demo_db 1 ''@PlanPal SUGGEST something''
          = Inr (TopPicks (enumerate 1 (take 3 ranked)))
      \<and> length (enumerate 1 (take 3 ranked)) = 3
      \<and> sorted_wrt (\<lambda>a b. snd a \<ge> snd b) ranked)"
proof -
  have n: "3 \<le> length (filter (\<lambda>s. group_id s = 1) (suggestions demo_db))"
    by (simp add: demo_db_def demo_suggestion_def)
  from suggest_top3 [OF demo_text_suggest demo_find_group n]
  have "\<exists>ranked.
        handle_planpal_query demo_db 1 ''@PlanPal SUGGEST something''
          = Inr (TopPicks (enumerate 1 (take 3 ranked)))
      \<and> length (enumerate 1 (take 3 ranked)) = 3
      \<and> sorted_wrt (\<lambda>a b. snd a \<ge> snd b) ranked"
    by blast
  with demo_text_suggest demo_find_group n show ?thesis by blast
qed

text \<open>
  C6. A query on a group with no persisted suggestion is answered with the fixed "no
  suggestions yet" message, whatever the text contains.
\<close>

theorem no_suggestions_short_circuit:
  "filter (\<lambda>s. group_id s = g) (suggestions d) = [] \<Longrightarrow>
     handle_planpal_query d g text = Inr NoSuggestionsYet"
  by (simp add: handle_planpal_query_def)

theorem no_suggestions_short_circuit_witness:
  "filter (\<lambda>s. group_id s = 2) (suggestions demo_db) = []
   \<and> handle_planpal_query demo_db 2 ''@PlanPal suggest safety compare pros'' = Inr NoSuggestionsYet"
proof -
  have e: "filter (\<lambda>s. group_id s = 2) (suggestions demo_db) = []"
    by (simp add: demo_db_def demo_suggestion_def)
  from no_suggestions_short_circuit [OF e] e show ?thesis by simp
qed

subsection \<open>Voting\<close>

text \<open>
  C7 at a poll that already has a vote: the ledger of poll 5 is
  \<open>{opt1: [member 1]}\<close> and member 2 votes for \<open>opt1\<close>. The entry is appended
  to the loaded dictionary in place, the session finds the assigned value equal to the
  loaded one and writes nothing, and the reply is the poll with member 1's vote alone;
  the store is unchanged.
\<close>

theorem second_vote_not_appended:
  "votes demo_poll = [(''opt1'', [\<lparr>member_id = 1, emoji = ''+1''\<rparr>])]
   \<and> option_id demo_vote_opt1 = ''opt1''
   \<and> vote_poll demo_db ''ABC123'' 5 demo_vote_opt1 = (Inr demo_poll, demo_db)"
proof -
  have n: "votes demo_poll \<noteq> []" by (simp add: demo_poll_def)
  show ?thesis
    using vote_poll_nonempty_ledger [OF demo_find_poll n, of "''ABC123''" demo_vote_opt1]
    by (simp add: demo_poll_def demo_vote_opt1_def)
qed

text \<open>
  C10 at the same poll, reached through a code that matches no group: the vote for
  \<open>ghost\<close> is answered with success, as under any other code, and the poll's ledger is
  not changed, in the reply or in the store.
\<close>

theorem vote_through_unknown_code_changes_nothing:
  "find (\<lambda>x. code x = ''NOSUCH'') (groups demo_db) = None
   \<and> map_of (votes demo_poll) (option_id demo_vote) = None
   \<and> vote_poll demo_db ''NOSUCH'' 5 demo_vote = (Inr demo_poll, demo_db)
   \<and> vote_poll demo_db ''NOSUCH'' 5 demo_vote = vote_poll demo_db ''ABC123'' 5 demo_vote"
proof -
  have g: "find (\<lambda>x. code x = ''NOSUCH'') (groups demo_db) = None"
    by (simp add: demo_db_def demo_group_def)
  have a: "map_of (votes demo_poll) (option_id demo_vote) = None"
    by (simp add: demo_poll_def demo_vote_def)
  have n: "votes demo_poll \<noteq> []" by (simp add: demo_poll_def)
  show ?thesis
    using g a vote_poll_nonempty_ledger [OF demo_find_poll n, of "''NOSUCH''" demo_vote]
      vote_poll_any_code [of demo_db "''NOSUCH''" 5 demo_vote "''ABC123''"]
    by simp
qed

subsection \<open>Fetch without credential\<close>

text \<open>
  C8. With the credential unset or empty, a place fetch returns the four fallback places
  and a movie fetch the four fallback movies, each with the cache as it was. Whenever a
  fetch leaves in the cache an entry that was not there before, the credential was set,
  the provider's answer was a success (status OK with results for places, results present
  for movies), and the entry is the truncated answer under the request's key.
\<close>

theorem fetch_without_credential:
  "(GOOGLE_PLACES_KEY w = None \<or> GOOGLE_PLACES_KEY w = Some [] \<longrightarrow>
      fetch_google_places w c m b lat lng = (get_mock_places m b, c)
      \<and> length (get_mock_places m b) = 4)
   \<and> (TMDB_API_KEY w = None \<or> TMDB_API_KEY w = Some [] \<longrightarrow>
      fetch_tmdb_movies w c m = (get_mock_movies m, c)
      \<and> length (get_mock_movies m) = 4)
   \<and> (fetch_google_places w c m b lat lng = (r, c') \<and> c' k = Some e \<and> c k \<noteq> Some e \<longrightarrow>
      (\<exists>api_key body rs.
           GOOGLE_PLACES_KEY w = Some api_key \<and> api_key \<noteq> []
         \<and> places_response w (dict_get type_map m ''point_of_interest'') lat lng api_key
             = Body body
         \<and> status body = Some ''OK'' \<and> results body = Some rs
         \<and> r = take 10 rs
         \<and> k = places_cache_key w m b lat lng
         \<and> e = (take 10 rs, now_write w)))
   \<and> (fetch_tmdb_movies w c m = (r, c') \<and> c' k = Some e \<and> c k \<noteq> Some e \<longrightarrow>
      (\<exists>api_key body rs.
           TMDB_API_KEY w = Some api_key \<and> api_key \<noteq> []
         \<and> movies_response w (dict_get genre_map m 28) api_key = Body body
         \<and> results body = Some rs
         \<and> r = take 10 rs
         \<and> k = movies_cache_key w m
         \<and> e = (take 10 rs, now_write w)))"
proof (intro conjI impI)
  assume "GOOGLE_PLACES_KEY w = None \<or> GOOGLE_PLACES_KEY w = Some []"
  then show "fetch_google_places w c m b lat lng = (get_mock_places m b, c)"
    by (auto simp: fetch_google_places_def)
next
  show "length (get_mock_places m b) = 4"
    by (simp add: get_mock_places_def)
next
  assume "TMDB_API_KEY w = None \<or> TMDB_API_KEY w = Some []"
  then show "fetch_tmdb_movies w c m = (get_mock_movies m, c)"
    by (auto simp: fetch_tmdb_movies_def)
next
  show "length (get_mock_movies m) = 4"
    by (simp add: get_mock_movies_def)
next
  assume "fetch_google_places w c m b lat lng = (r, c') \<and> c' k = Some e \<and> c k \<noteq> Some e"
  then show "\<exists>api_key body rs.
           GOOGLE_PLACES_KEY w = Some api_key \<and> api_key \<noteq> []
         \<and> places_response w (dict_get type_map m ''point_of_interest'') lat lng api_key
             = Body body
         \<and> status body = Some ''OK'' \<and> results body = Some rs
         \<and> r = take 10 rs
         \<and> k = places_cache_key w m b lat lng
         \<and> e = (take 10 rs, now_write w)"
    using fetch_google_places_write [of w c m b lat lng r c' k e] by blast
next
  assume "fetch_tmdb_movies w c m = (r, c') \<and> c' k = Some e \<and> c k \<noteq> Some e"
  then show "\<exists>api_key body rs.
           TMDB_API_KEY w = Some api_key \<and> api_key \<noteq> []
         \<and> movies_response w (dict_get genre_map m 28) api_key = Body body
         \<and> results body = Some rs
         \<and> r = take 10 rs
         \<and> k = movies_cache_key w m
         \<and> e = (take 10 rs, now_write w)"
    using fetch_tmdb_movies_write [of w c m r c' k e] by blast
qed

theorem fetch_without_credential_witness:
  "(GOOGLE_PLACES_KEY demo_world_off = None \<or> GOOGLE_PLACES_KEY demo_world_off = Some [])
   \<and> fetch_google_places demo_world_off Map.empty ''chill'' ''low'' 1 2
       = (get_mock_places ''chill'' ''low'', Map.empty)
   \<and> (TMDB_API_KEY demo_world_off = None \<or> TMDB_API_KEY demo_world_off = Some [])
   \<and> fetch_tmdb_movies demo_world_off Map.empty ''chill'' = (get_mock_movies ''chill'', Map.empty)
   \<and> fetch_google_places demo_world_live Map.empty ''chill'' ''low'' 1 2
       = ([mock_place ''Lalbagh'' 4.6 0 ''p1''],
          [''places:chill|low|1.0|2.0'' \<mapsto> ([mock_place ''Lalbagh'' 4.6 0 ''p1''], 11)])
   \<and> (\<exists>api_key body rs.
           GOOGLE_PLACES_KEY demo_world_live = Some api_key \<and> api_key \<noteq> []
         \<and> places_response demo_world_live (dict_get type_map ''chill'' ''point_of_interest'')
             1 2 api_key = Body body
         \<and> status body = Some ''OK'' \<and> results body = Some rs
         \<and> ''places:chill|low|1.0|2.0'' = places_cache_key demo_world_live ''chill'' ''low'' 1 2)
   \<and> fetch_tmdb_movies demo_world_live Map.empty ''chill''
       = ([mock_place ''Lalbagh'' 4.6 0 ''p1''],
          [''movies:chill'' \<mapsto> ([mock_place ''Lalbagh'' 4.6 0 ''p1''], 11)])
   \<and> (\<exists>api_key body rs.
           TMDB_API_KEY demo_world_live = Some api_key \<and> api_key \<noteq> []
         \<and> movies_response demo_world_live (dict_get genre_map ''chill'' 28) api_key = Body body
         \<and> results body = Some rs
         \<and> ''movies:chill'' = movies_cache_key demo_world_live ''chill'')"
proof -
  have k: "(GOOGLE_PLACES_KEY demo_world_off = None \<or> GOOGLE_PLACES_KEY demo_world_off = Some [])
           \<and> (TMDB_API_KEY demo_world_off = None \<or> TMDB_API_KEY demo_world_off = Some [])"
    by (simp add: demo_world_off_def)
  have off: "fetch_google_places demo_world_off Map.empty ''chill'' ''low'' 1 2
               = (get_mock_places ''chill'' ''low'', Map.empty)
             \<and> fetch_tmdb_movies demo_world_off Map.empty ''chill''
               = (get_mock_movies ''chill'', Map.empty)"
    using k fetch_without_credential [of demo_world_off Map.empty "''chill''" "''low''" 1 2]
    by blast
  have p: "fetch_google_places demo_world_live Map.empty ''chill'' ''low'' 1 2
       = ([mock_place ''Lalbagh'' 4.6 0 ''p1''],
          [''places:chill|low|1.0|2.0'' \<mapsto> ([mock_place ''Lalbagh'' 4.6 0 ''p1''], 11)])"
    by (simp add: fetch_google_places_def demo_world_live_def demo_float_str_def
          places_cache_key_def get_cache_key_def cache_content_def get_cached_def
          places_response_def set_cache_def)
  have q: "fetch_tmdb_movies demo_world_live Map.empty ''chill''
       = ([mock_place ''Lalbagh'' 4.6 0 ''p1''],
          [''movies:chill'' \<mapsto> ([mock_place ''Lalbagh'' 4.6 0 ''p1''], 11)])"
    by (simp add: fetch_tmdb_movies_def demo_world_live_def
          movies_cache_key_def get_cache_key_def cache_content_def get_cached_def
          movies_response_def set_cache_def)
  have pl: "\<exists>api_key body rs.
           GOOGLE_PLACES_KEY demo_world_live = Some api_key \<and> api_key \<noteq> []
         \<and> places_response demo_world_live (dict_get type_map ''chill'' ''point_of_interest'')
             1 2 api_key = Body body
         \<and> status body = Some ''OK'' \<and> results body = Some rs
         \<and> ''places:chill|low|1.0|2.0'' = places_cache_key demo_world_live ''chill'' ''low'' 1 2"
    using p
      fetch_without_credential
        [of demo_world_live Map.empty "''chill''" "''low''" 1 2
            "[mock_place ''Lalbagh'' 4.6 0 ''p1'']"
            "[''places:chill|low|1.0|2.0'' \<mapsto> ([mock_place ''Lalbagh'' 4.6 0 ''p1''], 11)]"
            "''places:chill|low|1.0|2.0''"
            "([mock_place ''Lalbagh'' 4.6 0 ''p1''], 11)"]
    by simp blast
  have ml: "\<exists>api_key body rs.
           TMDB_API_KEY demo_world_live = Some api_key \<and> api_key \<noteq> []
         \<and> movies_response demo_world_live (dict_get genre_map ''chill'' 28) api_key = Body body
         \<and> results body = Some rs
         \<and> ''movies:chill'' = movies_cache_key demo_world_live ''chill''"
    using q
      fetch_without_credential
        [of demo_world_live Map.empty "''chill''" "''low''" 1 2
            "[mock_place ''Lalbagh'' 4.6 0 ''p1'']"
            "[''movies:chill'' \<mapsto> ([mock_place ''Lalbagh'' 4.6 0 ''p1''], 11)]"
            "''movies:chill''"
            "([mock_place ''Lalbagh'' 4.6 0 ''p1''], 11)"]
    by simp blast
  show ?thesis
    using k off p q pl ml by blast
qed

subsection \<open>Haversine distance\<close>

text \<open>
  C9. In exact arithmetic the distance from A to B is the distance from B to A (value or
  error alike), and the distance from a point to itself is 0.
\<close>

theorem calculate_distance_symmetric_zero:
  "calculate_distance lat1 lng1 lat2 lng2 = calculate_distance lat2 lng2 lat1 lng1
   \<and> calculate_distance lat1 lng1 lat1 lng1 = Inr 0"
  by (simp add: calculate_distance_def haversine_a_sym [of lat1 lng1 lat2 lng2]
        haversine_a_same atan2_def)

theorem calculate_distance_symmetric_zero_witness:
  "calculate_distance 12.9716 77.5946 28.6139 77.2090
     = calculate_distance 28.6139 77.2090 12.9716 77.5946
   \<and> calculate_distance 12.9716 77.5946 12.9716 77.5946 = Inr 0"
  using calculate_distance_symmetric_zero [of "12.9716" "77.5946" "28.6139" "77.2090"]
  by simp

end
